theory Spec2Isabelle
  imports Complex_Main
begin

section \<open>RC beam design (app.py): a shallow embedding\<close>

text \<open>
  The program computes with Python floats. In the first embedding they are the reals:
  every arithmetic operation is the exact one, so the rounding error of IEEE-754
  doubles, overflow and NaN are outside of it. What the program does beyond arithmetic
  is written out: the exceptions of \<^verbatim>\<open>math.sqrt\<close> and of float division are values of
  \<open>py_error\<close>, the dictionary of \<^verbatim>\<open>max_moment\<close> is a map, the arrays of numpy are
  lists and the figure of \<^verbatim>\<open>draw_diagrams\<close> is the data it plots.

  Where a property is about the digits returned for every input, exact arithmetic
  does not decide it. \<^verbatim>\<open>shear_design\<close>, \<^verbatim>\<open>max_moment\<close> and \<^verbatim>\<open>flexural_design\<close> are
  therefore embedded a second time, over binary64.
\<close>

subsection \<open>Python arithmetic\<close>

datatype py_error = ValueError | ZeroDivisionError | OverflowError

type_synonym 'a result = "py_error + 'a"

text \<open>\<^verbatim>\<open>a / b\<close> on floats raises ZeroDivisionError when \<open>b\<close> is zero.\<close>

definition py_div :: "real \<Rightarrow> real \<Rightarrow> real result" where
  "py_div a b = (if b = 0 then Inl ZeroDivisionError else Inr (a / b))"

text \<open>\<^verbatim>\<open>math.sqrt(x)\<close> raises ValueError (math domain error) when \<open>x\<close> is negative.\<close>

definition py_sqrt :: "real \<Rightarrow> real result" where
  "py_sqrt x = (if x < 0 then Inl ValueError else Inr (sqrt x))"

text \<open>
  \<^verbatim>\<open>round(x, n)\<close>: the nearest multiple of \<open>10^-n\<close>, a tie going to the even
  multiple.
\<close>

definition py_round :: "real \<Rightarrow> nat \<Rightarrow> real" where
  "py_round x n =
     (let s = 10 ^ n;
          y = x * s;
          f = \<lfloor>y\<rfloor>;
          r = y - of_int f
      in (if r < 1 / 2 then of_int f
          else if 1 / 2 < r then of_int (f + 1)
          else if even f then of_int f
          else of_int (f + 1)) / s)"

subsection \<open>ACI calculations\<close>

text \<open>
  \<^verbatim>\<open>max_moment\<close> builds a dictionary of the four closed forms and looks the beam
  type up with default 0.
\<close>

definition moment_table :: "real \<Rightarrow> real \<Rightarrow> (string \<times> real) list" where
  "moment_table w L =
     [(''Simply Supported'', w * L ^ 2 / 8),
      (''Fixed End'', w * L ^ 2 / 12),
      (''Cantilever'', w * L ^ 2 / 2),
      (''Overhang'', w * L ^ 2 / 10)]"

definition max_moment :: "string \<Rightarrow> real \<Rightarrow> real \<Rightarrow> real" where
  "max_moment beam w L =
     (case map_of (moment_table w L) beam of None \<Rightarrow> 0 | Some m \<Rightarrow> m)"

definition flexural_design ::
  "string \<Rightarrow> real \<Rightarrow> real \<Rightarrow> real \<Rightarrow> real \<Rightarrow> real \<Rightarrow> real \<Rightarrow> (real \<times> real) result" where
  "flexural_design beam w L b d fc fy =
     (let Mu = max_moment beam w L;
          phi = 0.9
      in case py_div (Mu * 1000000) (phi * fy * d * 0.9) of
           Inl e \<Rightarrow> Inl e
         | Inr As \<Rightarrow> Inr (py_round Mu 2, py_round As 2))"

definition shear_design ::
  "real \<Rightarrow> real \<Rightarrow> real \<Rightarrow> real \<Rightarrow> real \<Rightarrow> (real \<times> real \<times> string) result" where
  "shear_design w L b d fc =
     (let Vu = w * L / 2;
          phi = 0.75
      in case py_sqrt fc of
           Inl e \<Rightarrow> Inl e
         | Inr sq \<Rightarrow>
             (let Vc = 0.17 * sq * b * d / 1000;
                  status = (if phi * Vc \<ge> Vu then ''SAFE'' else ''STIRRUPS REQUIRED'')
              in Inr (py_round Vu 2, py_round (phi * Vc) 2, status)))"

text \<open>
  The button handler of the user interface: \<^verbatim>\<open>flexural_design\<close> first, then
  \<^verbatim>\<open>shear_design\<close>; an exception of the first stops the computation.
\<close>

definition compute_design ::
  "string \<Rightarrow> real \<Rightarrow> real \<Rightarrow> real \<Rightarrow> real \<Rightarrow> real \<Rightarrow> real
     \<Rightarrow> (real \<times> real \<times> real \<times> real \<times> string) result" where
  "compute_design beam w L b d fc fy =
     (case flexural_design beam w L b d fc fy of
        Inl e \<Rightarrow> Inl e
      | Inr (Mu, As) \<Rightarrow>
          (case shear_design w L b d fc of
             Inl e \<Rightarrow> Inl e
           | Inr (Vu, Vc, status) \<Rightarrow> Inr (Mu, As, Vu, Vc, status)))"

subsection \<open>Shear force and bending moment diagrams\<close>

text \<open>
  \<^verbatim>\<open>np.linspace(start, stop, num)\<close>: \<open>num\<close> samples \<open>start + i * step\<close> with
  \<open>step = (stop - start) / (num - 1)\<close>; a single sample is \<open>start\<close>.
\<close>

definition linspace :: "real \<Rightarrow> real \<Rightarrow> nat \<Rightarrow> real list" where
  "linspace start stop num =
     (if num = 0 then []
      else if num = 1 then [start]
      else map (\<lambda>i. start + real i * ((stop - start) / real (num - 1))) [0..<num])"

text \<open>An axes of the figure: its labels and the line it plots.\<close>

record axes =
  title :: string
  xlabel :: string
  ylabel :: string
  xdata :: "real list"
  ydata :: "real list"

record figure =
  ax1 :: axes
  ax2 :: axes

text \<open>
  The branches of \<^verbatim>\<open>draw_diagrams\<close>, in the order of the source; numpy applies the
  arithmetic to every element of \<open>x\<close>.
\<close>

definition shear_values :: "string \<Rightarrow> real \<Rightarrow> real \<Rightarrow> real list \<Rightarrow> real list" where
  "shear_values beam w L x =
     (if beam = ''Simply Supported'' then map (\<lambda>t. w * (L / 2 - t)) x
      else if beam = ''Cantilever'' then map (\<lambda>t. w * (L - t)) x
      else if beam = ''Fixed End'' then map (\<lambda>t. w * (L / 2 - t)) x
      else map (\<lambda>t. w * (L / 2 - t)) x)"

definition moment_values :: "string \<Rightarrow> real \<Rightarrow> real \<Rightarrow> real list \<Rightarrow> real list" where
  "moment_values beam w L x =
     (if beam = ''Simply Supported'' then map (\<lambda>t. w * t * (L - t) / 2) x
      else if beam = ''Cantilever'' then map (\<lambda>t. w * (L - t) ^ 2 / 2) x
      else if beam = ''Fixed End'' then map (\<lambda>t. w * t * (L - t) / 12) x
      else map (\<lambda>t. w * t * (L - t) / 10) x)"

text \<open>
  The y-label of the moment diagram; its middle dot is the two bytes C2 B7 of UTF-8.
\<close>

definition moment_label :: string where
  "moment_label = ''Moment (kN'' @ [CHR 0xC2, CHR 0xB7] @ ''m)''"

text \<open>
  No statement of \<^verbatim>\<open>draw_diagrams\<close> raises: the result is always a figure. Of the
  figure the model keeps the titles, the labels and the two lines plotted; its size,
  the position of the axes and the grid are left out.
\<close>

definition draw_diagrams :: "string \<Rightarrow> real \<Rightarrow> real \<Rightarrow> figure result" where
  "draw_diagrams beam w L =
     (let x = linspace 0 L 100;
          V = shear_values beam w L x;
          M = moment_values beam w L x
      in Inr \<lparr>ax1 = \<lparr>title = ''Shear Force Diagram'', xlabel = '''',
                       ylabel = ''Shear (kN)'', xdata = x, ydata = V\<rparr>,
               ax2 = \<lparr>title = ''Bending Moment Diagram'', xlabel = ''Length (m)'',
                       ylabel = moment_label, xdata = x, ydata = M\<rparr>\<rparr>)"

text \<open>The four beam types the user interface offers.\<close>

definition recognized :: "string \<Rightarrow> bool" where
  "recognized beam \<longleftrightarrow>
     beam \<in> {''Simply Supported'', ''Fixed End'', ''Cantilever'', ''Overhang''}"

subsection \<open>The plotter as the specification describes it\<close>

text \<open>
  The specification's words, to compare with \<open>draw_diagrams\<close>: 100 evenly spaced
  points over \<open>[0, L]\<close>, and two stacked plots of a shear function \<open>V\<close> and a moment
  function \<open>M\<close> sampled there.
\<close>

definition sample_points :: "real \<Rightarrow> real list" where
  "sample_points L = map (\<lambda>i. real i * L / 99) [0..<100]"

definition envelope_figure :: "real \<Rightarrow> (real \<Rightarrow> real) \<Rightarrow> (real \<Rightarrow> real) \<Rightarrow> figure" where
  "envelope_figure L V M =
     \<lparr>ax1 = \<lparr>title = ''Shear Force Diagram'', xlabel = '''',
              ylabel = ''Shear (kN)'', xdata = sample_points L,
              ydata = map V (sample_points L)\<rparr>,
      ax2 = \<lparr>title = ''Bending Moment Diagram'', xlabel = ''Length (m)'',
              ylabel = moment_label, xdata = sample_points L,
              ydata = map M (sample_points L)\<rparr>\<rparr>"

subsection \<open>The shear check over binary64\<close>

text \<open>
  Every operation of \<^verbatim>\<open>shear_design\<close> is a correctly rounded operation of IEEE 754
  binary64 or of CPython: the products, the divisions by 2 and by 1000, the square
  root, the comparison and \<^verbatim>\<open>round\<close>. So the function has a second embedding, over
  the doubles themselves, which returns digit for digit what the program returns.

  A double is a finite value, an infinity or NaN. \<open>Fin x\<close> is the double of value
  \<open>x\<close>; both zeros are \<open>Fin 0\<close>, which no operation used here tells apart.
\<close>

datatype double = Fin real | PInf | NInf | NaN

text \<open>Rounding to an integer, a tie going to the even one.\<close>

definition rne :: "real \<Rightarrow> int" where
  "rne q = (let f = \<lfloor>q\<rfloor>; r = q - of_int f
            in if r < 1 / 2 then f else if 1 / 2 < r then f + 1
               else if even f then f else f + 1)"

text \<open>
  The exponent of the binade of \<open>x\<close>, not below that of the subnormal numbers, and
  rounding to the nearest double: the spacing of the doubles around \<open>x\<close> is
  \<open>2^(expo x - 52)\<close>, a tie goes to the even significand, and a result of magnitude
  \<open>2^1024\<close> or more is an infinity.
\<close>

definition expo :: "real \<Rightarrow> int" where
  "expo x = max \<lfloor>log 2 \<bar>x\<bar>\<rfloor> (- 1022)"

definition rnd :: "real \<Rightarrow> double" where
  "rnd x = (if x = 0 then Fin 0
            else let u = 2 powi (expo x - 52);
                     y = of_int (rne (x / u)) * u
                 in if 2 ^ 1024 \<le> \<bar>y\<bar> then (if 0 < x then PInf else NInf) else Fin y)"

text \<open>The product of two doubles.\<close>

fun fmul :: "double \<Rightarrow> double \<Rightarrow> double" where
  "fmul NaN _ = NaN"
| "fmul _ NaN = NaN"
| "fmul (Fin x) (Fin y) = rnd (x * y)"
| "fmul (Fin x) PInf = (if x = 0 then NaN else if 0 < x then PInf else NInf)"
| "fmul (Fin x) NInf = (if x = 0 then NaN else if 0 < x then NInf else PInf)"
| "fmul PInf (Fin y) = (if y = 0 then NaN else if 0 < y then PInf else NInf)"
| "fmul NInf (Fin y) = (if y = 0 then NaN else if 0 < y then NInf else PInf)"
| "fmul PInf PInf = PInf"
| "fmul NInf NInf = PInf"
| "fmul PInf NInf = NInf"
| "fmul NInf PInf = NInf"

text \<open>
  The quotient of a double by a finite non-zero number, the quotient of two doubles
  of which the second is not zero, and Python's \<^verbatim>\<open>a / b\<close>, which raises
  ZeroDivisionError when \<open>b\<close> is zero.
\<close>

fun fdiv_fin :: "double \<Rightarrow> real \<Rightarrow> double" where
  "fdiv_fin (Fin x) y = rnd (x / y)"
| "fdiv_fin PInf y = (if 0 < y then PInf else NInf)"
| "fdiv_fin NInf y = (if 0 < y then NInf else PInf)"
| "fdiv_fin NaN y = NaN"

fun fquot :: "double \<Rightarrow> double \<Rightarrow> double" where
  "fquot a (Fin y) = fdiv_fin a y"
| "fquot (Fin x) PInf = Fin 0"
| "fquot (Fin x) NInf = Fin 0"
| "fquot a b = NaN"

definition py_truediv :: "double \<Rightarrow> double \<Rightarrow> double result" where
  "py_truediv a b = (if b = Fin 0 then Inl ZeroDivisionError else Inr (fquot a b))"

text \<open>
  The square root, and \<^verbatim>\<open>math.sqrt\<close>, which raises ValueError below zero.
\<close>

fun froot :: "double \<Rightarrow> double" where
  "froot (Fin x) = rnd (sqrt x)"
| "froot PInf = PInf"
| "froot a = NaN"

fun py_sqrt_f :: "double \<Rightarrow> double result" where
  "py_sqrt_f (Fin x) = (if x < 0 then Inl ValueError else Inr (froot (Fin x)))"
| "py_sqrt_f NInf = Inl ValueError"
| "py_sqrt_f a = Inr (froot a)"

text \<open>Python's \<^verbatim>\<open>a >= b\<close>: false when either side is NaN.\<close>

fun fge :: "double \<Rightarrow> double \<Rightarrow> bool" where
  "fge NaN _ = False"
| "fge _ NaN = False"
| "fge PInf _ = True"
| "fge _ NInf = True"
| "fge (Fin x) (Fin y) = (y \<le> x)"
| "fge (Fin x) PInf = False"
| "fge NInf (Fin y) = False"
| "fge NInf PInf = False"

text \<open>
  \<^verbatim>\<open>round(a, n)\<close> on a double: the exact value is rounded to \<open>n\<close> decimals, a tie
  going to the even one, and the decimal result is converted to the nearest double;
  infinities and NaN are returned as they are.
\<close>

fun py_round_f :: "double \<Rightarrow> nat \<Rightarrow> double" where
  "py_round_f (Fin x) n = rnd (py_round x n)"
| "py_round_f a n = a"

text \<open>
  \<^verbatim>\<open>shear_design\<close> statement by statement; a literal such as \<^verbatim>\<open>0.17\<close> is the double
  nearest to it.
\<close>

definition shear_design_f64 ::
  "double \<Rightarrow> double \<Rightarrow> double \<Rightarrow> double \<Rightarrow> double \<Rightarrow> (double \<times> double \<times> string) result" where
  "shear_design_f64 w L b d fc =
     (case py_truediv (fmul w L) (Fin 2) of
        Inl e \<Rightarrow> Inl e
      | Inr Vu \<Rightarrow>
          (let phi = rnd 0.75
           in case py_sqrt_f fc of
                Inl e \<Rightarrow> Inl e
              | Inr sq \<Rightarrow>
                  (case py_truediv (fmul (fmul (fmul (rnd 0.17) sq) b) d) (Fin 1000) of
                     Inl e \<Rightarrow> Inl e
                   | Inr Vc \<Rightarrow>
                       (let status = (if fge (fmul phi Vc) Vu then ''SAFE''
                                      else ''STIRRUPS REQUIRED'')
                        in Inr (py_round_f Vu 2, py_round_f (fmul phi Vc) 2, status)))))"

subsection \<open>The flexural design over binary64\<close>

text \<open>
  \<^verbatim>\<open>L**2\<close> is the \<^verbatim>\<open>pow\<close> of the C library, whose last bit depends on the platform:
  it is a parameter \<open>pw\<close> of the embedding, which returns the square or raises. The
  other operations of \<^verbatim>\<open>max_moment\<close> and \<^verbatim>\<open>flexural_design\<close> are correctly rounded.

  \<open>pow2_rounded\<close> is one such \<open>pw\<close>: the correctly rounded square, with Python's
  OverflowError where the square of a finite double is beyond the doubles. Where
  the square is itself a double, as for \<open>L = 20\<close> and \<open>L = 1.5\<close>, it is the exact one.
\<close>

fun pow2_rounded :: "double \<Rightarrow> double result" where
  "pow2_rounded (Fin x) =
     (case rnd (x * x) of Fin y \<Rightarrow> Inr (Fin y) | _ \<Rightarrow> Inl OverflowError)"
| "pow2_rounded PInf = Inr PInf"
| "pow2_rounded NInf = Inr PInf"
| "pow2_rounded NaN = Inr NaN"

text \<open>
  The dictionary of \<^verbatim>\<open>max_moment\<close> is built before the lookup, so an exception of
  \<^verbatim>\<open>L**2\<close> is raised for every beam string; the divisors are non-zero literals.
\<close>

definition moment_table_f64 :: "double \<Rightarrow> double \<Rightarrow> (string \<times> double) list" where
  "moment_table_f64 w sq =
     [(''Simply Supported'', fdiv_fin (fmul w sq) 8),
      (''Fixed End'', fdiv_fin (fmul w sq) 12),
      (''Cantilever'', fdiv_fin (fmul w sq) 2),
      (''Overhang'', fdiv_fin (fmul w sq) 10)]"

definition max_moment_f64 ::
  "(double \<Rightarrow> double result) \<Rightarrow> string \<Rightarrow> double \<Rightarrow> double \<Rightarrow> double result" where
  "max_moment_f64 pw beam w L =
     (case pw L of
        Inl e \<Rightarrow> Inl e
      | Inr sq \<Rightarrow>
          Inr (case map_of (moment_table_f64 w sq) beam of None \<Rightarrow> Fin 0 | Some m \<Rightarrow> m))"

definition flexural_design_f64 ::
  "(double \<Rightarrow> double result) \<Rightarrow> string \<Rightarrow> double \<Rightarrow> double \<Rightarrow> double \<Rightarrow> double \<Rightarrow> double
     \<Rightarrow> double \<Rightarrow> (double \<times> double) result" where
  "flexural_design_f64 pw beam w L b d fc fy =
     (case max_moment_f64 pw beam w L of
        Inl e \<Rightarrow> Inl e
      | Inr Mu \<Rightarrow>
          (let phi = rnd 0.9
           in case py_truediv (fmul Mu (Fin 1000000)) (fmul (fmul (fmul phi fy) d) (rnd 0.9)) of
                Inl e \<Rightarrow> Inl e
              | Inr As \<Rightarrow> Inr (py_round_f Mu 2, py_round_f As 2)))"

section \<open>Rounding and the square root at concrete values\<close>

text \<open>
  A number strictly within half a unit of the \<open>n\<close>-th decimal of \<open>k / 10^n\<close> is
  rounded to \<open>k / 10^n\<close>.
\<close>

lemma py_round_nearest:
  assumes "of_int k - 1 / 2 < x * 10 ^ n" "x * 10 ^ n < of_int k + 1 / 2"
  shows "py_round x n = of_int k / 10 ^ n"
proof (cases "of_int k \<le> x * 10 ^ n")
  case True
  with assms have "\<lfloor>x * 10 ^ n\<rfloor> = k"
    by (intro floor_unique) auto
  with assms True show ?thesis
    by (simp add: py_round_def Let_def)
next
  case False
  with assms have "\<lfloor>x * 10 ^ n\<rfloor> = k - 1"
    by (intro floor_unique) auto
  with assms False show ?thesis
    by (simp add: py_round_def Let_def)
qed

lemma sqrt_30_lower: "5.4772 < sqrt 30"
  by (rule real_less_rsqrt) (simp add: power2_eq_square)

lemma sqrt_30_upper: "sqrt 30 < 5.4773"
  by (rule real_less_lsqrt) (simp_all add: power2_eq_square)

lemma flexural_example:
  "flexural_design ''Simply Supported'' 30 20 300 500 30 420 = Inr (1500, 8818.34)"
proof -
  have Mu: "py_round 1500 2 = of_int 150000 / 10 ^ 2"
    by (rule py_round_nearest) simp_all
  have As: "py_round (1500000000 / 170100) 2 = of_int 881834 / 10 ^ 2"
    by (rule py_round_nearest) simp_all
  show ?thesis
    using Mu As
    by (simp add: flexural_design_def py_div_def Let_def max_moment_def moment_table_def)
qed

lemma shear_example:
  "shear_design 30 20 300 500 30 = Inr (300, 104.75, ''STIRRUPS REQUIRED'')"
proof -
  have Vu: "py_round 300 2 = of_int 30000 / 10 ^ 2"
    by (rule py_round_nearest) simp_all
  have Vc: "py_round (0.75 * (0.17 * sqrt 30 * 300 * 500 / 1000)) 2 = of_int 10475 / 10 ^ 2"
    using sqrt_30_lower sqrt_30_upper by (intro py_round_nearest) simp_all
  have unsafe: "\<not> 0.75 * (0.17 * sqrt 30 * 300 * 500 / 1000) \<ge> 30 * 20 / 2"
    using sqrt_30_upper by simp
  show ?thesis
    using Vu Vc unsafe by (simp add: shear_design_def py_sqrt_def Let_def)
qed

section \<open>The sampled diagrams\<close>

lemma linspace_100: "linspace 0 L 100 = sample_points L"
  by (simp add: linspace_def sample_points_def)

lemma draw_diagrams_simply:
  "draw_diagrams ''Simply Supported'' w L =
     Inr (envelope_figure L (\<lambda>x. w * (L / 2 - x)) (\<lambda>x. w * x * (L - x) / 2))"
  by (simp add: draw_diagrams_def Let_def linspace_100 envelope_figure_def shear_values_def
      moment_values_def)

lemma draw_diagrams_cantilever:
  "draw_diagrams ''Cantilever'' w L =
     Inr (envelope_figure L (\<lambda>x. w * (L - x)) (\<lambda>x. w * (L - x) ^ 2 / 2))"
  by (simp add: draw_diagrams_def Let_def linspace_100 envelope_figure_def shear_values_def
      moment_values_def)

lemma draw_diagrams_fixed:
  "draw_diagrams ''Fixed End'' w L =
     Inr (envelope_figure L (\<lambda>x. w * (L / 2 - x)) (\<lambda>x. w * x * (L - x) / 12))"
  by (simp add: draw_diagrams_def Let_def linspace_100 envelope_figure_def shear_values_def
      moment_values_def)

lemma draw_diagrams_else:
  assumes "beam \<noteq> ''Simply Supported''" "beam \<noteq> ''Cantilever''" "beam \<noteq> ''Fixed End''"
  shows "draw_diagrams beam w L =
     Inr (envelope_figure L (\<lambda>x. w * (L / 2 - x)) (\<lambda>x. w * x * (L - x) / 10))"
  using assms
  by (simp add: draw_diagrams_def Let_def linspace_100 envelope_figure_def shear_values_def
      moment_values_def)

lemma length_sample_points: "length (sample_points L) = 100"
  by (simp add: sample_points_def)

lemma nth_sample_points: "i < 100 \<Longrightarrow> sample_points L ! i = real i * L / 99"
  by (simp add: sample_points_def)

lemma sample_points_spacing:
  "i < 99 \<Longrightarrow> sample_points L ! Suc i - sample_points L ! i = L / 99"
  by (simp add: nth_sample_points field_simps)

lemma sample_points_range:
  assumes "0 \<le> L" "x \<in> set (sample_points L)"
  shows "0 \<le> x \<and> x \<le> L"
proof -
  from assms(2) obtain i where i: "i < 100" and x: "x = real i * L / 99"
    by (auto simp: sample_points_def)
  have "real i \<le> 99" using i by simp
  then have "real i * L \<le> 99 * L" using assms(1) by (rule mult_right_mono)
  moreover have "0 \<le> real i * L" using assms(1) by simp
  ultimately show ?thesis using x by simp
qed

lemma sample_points_range_neg:
  assumes "L \<le> 0" "x \<in> set (sample_points L)"
  shows "L \<le> x \<and> x \<le> 0"
proof -
  from assms(2) obtain i where i: "i < 100" and x: "x = real i * L / 99"
    by (auto simp: sample_points_def)
  have "real i \<le> 99" using i by simp
  then have "99 * L \<le> real i * L" using assms(1) by (rule mult_right_mono_neg)
  moreover have "real i * L \<le> 0" using assms(1) by (simp add: mult_nonneg_nonpos)
  ultimately show ?thesis using x by simp
qed

section \<open>Exceptions of the design computation\<close>

lemma flexural_design_raises:
  "flexural_design beam w L b d fc fy = Inl e \<longleftrightarrow> e = ZeroDivisionError \<and> (d = 0 \<or> fy = 0)"
  by (auto simp: flexural_design_def py_div_def Let_def)

lemma shear_design_raises:
  "shear_design w L b d fc = Inl e \<longleftrightarrow> e = ValueError \<and> fc < 0"
  by (auto simp: shear_design_def py_sqrt_def Let_def)

lemma compute_design_raises:
  "compute_design beam w L b d fc fy = Inl e \<longleftrightarrow>
     (e = ZeroDivisionError \<and> (d = 0 \<or> fy = 0)) \<or> (e = ValueError \<and> fc < 0 \<and> d \<noteq> 0 \<and> fy \<noteq> 0)"
  by (auto simp: compute_design_def flexural_design_def shear_design_def py_div_def
      py_sqrt_def Let_def)

section \<open>Beam types outside the four names\<close>

lemma draw_diagrams_xdata:
  "\<exists>fig. draw_diagrams beam w L = Inr fig \<and> xdata (ax1 fig) = sample_points L
     \<and> xdata (ax2 fig) = sample_points L"
  by (simp add: draw_diagrams_def Let_def linspace_100)

lemma max_moment_unrecognized: "\<not> recognized beam \<Longrightarrow> max_moment beam w L = 0"
  by (simp add: recognized_def max_moment_def moment_table_def)

lemma draw_diagrams_unrecognized:
  assumes "\<not> recognized beam"
  shows "draw_diagrams beam w L =
     Inr (envelope_figure L (\<lambda>x. w * (L / 2 - x)) (\<lambda>x. w * x * (L - x) / 10))"
  using assms by (intro draw_diagrams_else) (auto simp: recognized_def)

lemma not_recognized_Propped: "\<not> recognized ''Propped''"
  by (simp add: recognized_def)

text \<open>
  On doubles: outside the four names \<open>max_moment\<close> returns 0 when \<^verbatim>\<open>L**2\<close> returns,
  and raises what \<^verbatim>\<open>L**2\<close> raises.
\<close>

lemma max_moment_f64_unrecognized:
  assumes "\<not> recognized beam"
  shows "max_moment_f64 pw beam w L = (case pw L of Inl e \<Rightarrow> Inl e | Inr sq \<Rightarrow> Inr (Fin 0))"
  using assms
  by (simp add: max_moment_f64_def moment_table_f64_def recognized_def split: sum.splits)

section \<open>Shear capacity and the section dimensions\<close>

lemma shear_design_status:
  "shear_design w L b d fc = Inr (Vu, Vc, status) \<longleftrightarrow>
     0 \<le> fc \<and> Vu = py_round (w * L / 2) 2
     \<and> Vc = py_round (0.75 * (0.17 * sqrt fc * b * d / 1000)) 2
     \<and> status = (if 0.75 * (0.17 * sqrt fc * b * d / 1000) \<ge> w * L / 2 then ''SAFE''
                 else ''STIRRUPS REQUIRED'')"
  by (auto simp: shear_design_def py_sqrt_def Let_def)

lemma shear_design_safe_iff:
  "(\<exists>Vu Vc. shear_design w L b d fc = Inr (Vu, Vc, ''SAFE'')) \<longleftrightarrow>
     0 \<le> fc \<and> w * L / 2 \<le> 0.75 * (0.17 * sqrt fc * b * d / 1000)"
  by (simp add: shear_design_status)

lemma capacity_mono:
  assumes "0 \<le> b" "0 \<le> d" "b \<le> b'" "d \<le> d'" "0 \<le> fc"
  shows "0.75 * (0.17 * sqrt fc * b * d / 1000) \<le> 0.75 * (0.17 * sqrt fc * b' * d' / 1000)"
proof -
  have "b * d \<le> b' * d'"
    using assms by (intro mult_mono) auto
  moreover have "0 \<le> sqrt fc"
    using assms by simp
  ultimately have "sqrt fc * (b * d) \<le> sqrt fc * (b' * d')"
    by (rule mult_left_mono)
  then show ?thesis
    by (simp add: mult_ac)
qed

lemma capacity_reaches:
  assumes "0 < fc"
  shows "\<exists>d0>0. \<forall>b d. 1 \<le> b \<longrightarrow> d0 \<le> d \<longrightarrow>
           w * L / 2 \<le> 0.75 * (0.17 * sqrt fc * b * d / 1000)"
proof -
  define c where "c = 0.75 * 0.17 * sqrt fc / 1000"
  have c: "0 < c"
    using assms by (simp add: c_def)
  define d0 where "d0 = max 1 (w * L / 2 / c)"
  have d0: "0 < d0" "w * L / 2 / c \<le> d0"
    by (simp_all add: d0_def)
  have "w * L / 2 \<le> 0.75 * (0.17 * sqrt fc * b * d / 1000)"
    if b: "1 \<le> b" and d: "d0 \<le> d" for b d
  proof -
    have "w * L / 2 \<le> c * d0"
      using d0(2) c by (simp add: field_simps)
    also have "c * d0 \<le> c * d"
      using d c by simp
    also have "c * d = c * (1 * d)"
      by simp
    also have "\<dots> \<le> c * (b * d)"
      using b c d d0(1) by (intro mult_left_mono mult_right_mono) auto
    also have "\<dots> = 0.75 * (0.17 * sqrt fc * b * d / 1000)"
      by (simp add: c_def)
    finally show ?thesis .
  qed
  with d0(1) show ?thesis
    by blast
qed

section \<open>Rounding to binary64 at concrete values\<close>

lemma rne_nearest:
  assumes "\<bar>q - of_int m\<bar> < 1 / 2"
  shows "rne q = m"
proof (cases "of_int m \<le> q")
  case True
  with assms have "\<lfloor>q\<rfloor> = m" by (intro floor_unique) auto
  with assms True show ?thesis by (simp add: rne_def Let_def)
next
  case False
  with assms have "\<lfloor>q\<rfloor> = m - 1" by (intro floor_unique) auto
  with assms False show ?thesis by (simp add: rne_def Let_def)
qed

lemma expo_normal:
  assumes "2 powi k \<le> \<bar>x\<bar>" "\<bar>x\<bar> < 2 powi (k + 1)" "- 1022 \<le> k"
  shows "expo x = k"
proof -
  have pos: "0 < \<bar>x\<bar>"
    using assms(1) by (smt (verit) zero_less_power_int)
  have "(2::real) powr of_int k = 2 powi k"
    by (rule powr_real_of_int') simp_all
  moreover have "(2::real) powr (of_int k + 1) = 2 powi (k + 1)"
    using powr_real_of_int' [of 2 "k + 1"] by simp
  ultimately have "\<lfloor>log 2 \<bar>x\<bar>\<rfloor> = k"
    using assms(1,2) pos floor_log_eq_powr_iff [of "\<bar>x\<bar>" 2 k] by simp
  with assms(3) show ?thesis by (simp add: expo_def)
qed

lemma rnd_normal:
  assumes "2 powi (e + 52) \<le> \<bar>x\<bar>" "\<bar>x\<bar> < 2 powi (e + 53)"
    and "- 1074 \<le> e" "e \<le> 970"
    and "\<bar>x / 2 powi e - of_int m\<bar> < 1 / 2"
  shows "rnd x = Fin (of_int m * 2 powi e)"
proof -
  have x: "x \<noteq> 0"
    using assms(1) by (smt (verit) zero_less_power_int)
  have "expo x = e + 52"
    using assms(1,2,3) by (intro expo_normal) (simp_all add: add.commute add.left_commute)
  then have u: "2 powi (expo x - 52) = (2::real) powi e" by simp
  have m: "rne (x / 2 powi e) = m"
    using assms(5) by (rule rne_nearest)
  have up: "(0::real) < 2 powi e" by simp
  have "\<bar>x\<bar> / 2 powi e < 2 powi (e + 53) / 2 powi e"
    using assms(2) up by (simp add: divide_strict_right_mono)
  also have "\<dots> = 2 ^ 53"
    by (simp add: power_int_add)
  finally have "\<bar>x / 2 powi e\<bar> < 2 ^ 53" by simp
  with assms(5) have "\<bar>real_of_int m\<bar> < 2 ^ 53 + 1" by linarith
  then have "real_of_int \<bar>m\<bar> < real_of_int (2 ^ 53 + 1)" by simp
  then have "\<bar>m\<bar> < 2 ^ 53 + 1" by (simp only: of_int_less_iff)
  then have "\<bar>m\<bar> \<le> 2 ^ 53" by simp
  then have "real_of_int \<bar>m\<bar> \<le> real_of_int (2 ^ 53)" by (simp only: of_int_le_iff)
  then have mb: "\<bar>real_of_int m\<bar> \<le> 2 ^ 53" by simp
  have "\<bar>real_of_int m * 2 powi e\<bar> = \<bar>real_of_int m\<bar> * 2 powi e"
    by (simp add: abs_mult)
  also have "\<dots> \<le> 2 ^ 53 * 2 powi e"
    using mb by (simp add: mult_right_mono)
  also have "\<dots> = 2 powi (e + 53)"
    by (simp add: power_int_add)
  also have "\<dots> \<le> 2 powi 1023"
    using assms(4) by (intro power_int_increasing) simp_all
  also have "\<dots> < 2 ^ 1024" by simp
  finally have "\<not> (2::real) ^ 1024 \<le> \<bar>real_of_int m * 2 powi e\<bar>" by simp
  with x u m show ?thesis by (simp add: rnd_def Let_def)
qed

text \<open>
  The form used to evaluate an operation: \<open>m\<close> and \<open>e\<close> are the significand and the
  exponent of the result.
\<close>

lemma rnd_eq:
  assumes "2 powi (e + 52) \<le> \<bar>x\<bar>" "\<bar>x\<bar> < 2 powi (e + 53)"
    and "- 1074 \<le> e" "e \<le> 970"
    and "\<bar>x / 2 powi e - of_int m\<bar> < 1 / 2"
    and "y = of_int m * 2 powi e"
  shows "rnd x = Fin y"
  using rnd_normal [OF assms(1-5)] assms(6) by simp

text \<open>Below half of the smallest subnormal number rounding gives zero.\<close>

lemma expo_subnormal:
  assumes "\<bar>x\<bar> < 2 powi (- 1022)" "x \<noteq> 0"
  shows "expo x = - 1022"
proof -
  have "(2::real) powr of_int (- 1022) = 2 powi (- 1022)"
    by (rule powr_real_of_int') simp_all
  then have "\<bar>x\<bar> < 2 powr (- 1022)" using assms(1) by simp
  then have "log 2 \<bar>x\<bar> < - 1022"
    using assms(2) by (simp add: log_less_iff)
  then have "\<lfloor>log 2 \<bar>x\<bar>\<rfloor> \<le> - 1022" by linarith
  then show ?thesis by (simp add: expo_def)
qed

lemma rnd_underflow:
  assumes "\<bar>x\<bar> < 2 powi (- 1075)"
  shows "rnd x = Fin 0"
proof (cases "x = 0")
  case True
  then show ?thesis by (simp add: rnd_def)
next
  case False
  have "(2::real) powi (- 1075) \<le> 2 powi (- 1022)"
    by (intro power_int_increasing) simp_all
  with assms have "\<bar>x\<bar> < 2 powi (- 1022)" by linarith
  then have e: "expo x = - 1022"
    using False by (rule expo_subnormal)
  have "\<bar>x\<bar> / 2 powi (- 1074) < 2 powi (- 1075) / 2 powi (- 1074)"
    using assms by (intro divide_strict_right_mono) simp_all
  also have "(2::real) powi (- 1075) / 2 powi (- 1074) = 1 / 2"
    by (simp add: power_int_diff [symmetric])
  finally have "\<bar>x / 2 powi (- 1074) - of_int 0\<bar> < 1 / 2" by simp
  then have "rne (x / 2 powi (- 1074)) = 0" by (rule rne_nearest)
  with False e show ?thesis by (simp add: rnd_def Let_def)
qed

text \<open>From \<open>2^1024\<close> on rounding gives the infinity.\<close>

lemma rnd_overflow:
  assumes "2 powi 1024 \<le> x"
  shows "rnd x = PInf"
proof -
  have pos: "0 < x"
    using assms by (smt (verit) zero_less_power_int)
  define k where "k = \<lfloor>log 2 \<bar>x\<bar>\<rfloor>"
  have "(2::real) powr of_int k \<le> \<bar>x\<bar>"
    using pos floor_log_eq_powr_iff [of "\<bar>x\<bar>" 2 k] by (simp add: k_def)
  moreover have "(2::real) powr of_int k = 2 powi k"
    by (rule powr_real_of_int') simp_all
  ultimately have lo: "2 powi k \<le> \<bar>x\<bar>"
    by simp
  have "(2::real) powr 1024 \<le> \<bar>x\<bar>"
    using assms pos by simp
  then have "1024 \<le> log 2 \<bar>x\<bar>"
    using pos by (simp add: le_log_iff)
  then have k: "1024 \<le> k"
    unfolding k_def by linarith
  then have e: "expo x = k"
    by (simp add: expo_def k_def)
  define u :: real where "u = 2 powi (k - 52)"
  have u: "0 < u"
    by (simp add: u_def)
  have "2 powi k = 2 ^ 52 * u"
    by (simp add: u_def power_int_diff)
  with lo pos have "2 ^ 52 * u \<le> x"
    by simp
  then have "2 ^ 52 \<le> x / u"
    using u by (simp add: pos_le_divide_eq)
  then have "of_int (2 ^ 52) \<le> x / u"
    by simp
  then have "2 ^ 52 \<le> \<lfloor>x / u\<rfloor>"
    by (simp only: le_floor_iff)
  moreover have "\<lfloor>x / u\<rfloor> \<le> rne (x / u)"
    by (simp add: rne_def Let_def)
  ultimately have "(2::int) ^ 52 \<le> rne (x / u)"
    by linarith
  then have "real_of_int (2 ^ 52) \<le> real_of_int (rne (x / u))"
    by (simp only: of_int_le_iff)
  then have m: "2 ^ 52 \<le> real_of_int (rne (x / u))"
    by simp
  have "(2::real) ^ 1024 = 2 powi 1024"
    by simp
  also have "\<dots> \<le> 2 powi k"
    using k by (intro power_int_increasing) simp_all
  also have "\<dots> = 2 ^ 52 * u"
    by (simp add: u_def power_int_diff)
  also have "\<dots> \<le> real_of_int (rne (x / u)) * u"
    using m u by (intro mult_right_mono) simp_all
  finally have "2 ^ 1024 \<le> \<bar>real_of_int (rne (x / u)) * u\<bar>"
    by linarith
  with pos e show ?thesis
    by (simp add: rnd_def Let_def u_def)
qed

lemma py_sqrt_f_nonneg: "fge fc (Fin 0) \<Longrightarrow> py_sqrt_f fc = Inr (froot fc)"
  by (cases fc) auto

text \<open>What \<open>py_round\<close> returns is a multiple of 0.01 within 0.005 of its argument.\<close>

lemma py_round_two_decimals:
  "\<exists>k::int. py_round x 2 = of_int k / 100 \<and> \<bar>x - of_int k / 100\<bar> \<le> 1 / 200"
proof -
  define f where "f = \<lfloor>x * 100\<rfloor>"
  have lo: "of_int f \<le> x * 100"
    by (simp add: f_def)
  have hi: "x * 100 < of_int f + 1"
    unfolding f_def by linarith
  show ?thesis
  proof (cases "x * 100 - of_int f < 1 / 2 \<or> (x * 100 - of_int f = 1 / 2 \<and> even f)")
    case True
    then have "py_round x 2 = of_int f / 100"
      by (auto simp: py_round_def Let_def f_def)
    moreover have "\<bar>x - of_int f / 100\<bar> \<le> 1 / 200"
      using True lo by (auto simp: field_simps abs_if)
    ultimately show ?thesis by blast
  next
    case False
    then have "py_round x 2 = of_int (f + 1) / 100"
      by (auto simp: py_round_def Let_def f_def)
    moreover have "\<bar>x - of_int (f + 1) / 100\<bar> \<le> 1 / 200"
      using False hi by (auto simp: field_simps abs_if)
    ultimately show ?thesis by blast
  qed
qed

section \<open>Maximum moment\<close>


section \<open>Section designer\<close>

text \<open>
  C2: for every \<open>w\<close>, \<open>L\<close>, \<open>b\<close>, \<open>d\<close> and every \<open>fc \<ge> 0\<close>, \<open>shear_design\<close> returns
  \<open>Vu = w * L / 2\<close> rounded to 2 decimals (the beam type is not an argument),
  \<open>phi * Vc = 0.75 * (0.17 * sqrt fc * b * d / 1000)\<close> rounded to 2 decimals, and the
  status SAFE exactly when the unrounded \<open>0.75 * Vc\<close> is at least the unrounded \<open>Vu\<close>,
  otherwise STIRRUPS REQUIRED. Stated over binary64, each operation being the
  program's.
\<close>

theorem shear_design_f64_formulas:
  assumes "fge fc (Fin 0)"
  shows "shear_design_f64 w L b d fc =
     Inr (py_round_f (fdiv_fin (fmul w L) 2) 2,
          py_round_f (fmul (rnd 0.75)
             (fdiv_fin (fmul (fmul (fmul (rnd 0.17) (froot fc)) b) d) 1000)) 2,
          if fge (fmul (rnd 0.75)
                (fdiv_fin (fmul (fmul (fmul (rnd 0.17) (froot fc)) b) d) 1000))
               (fdiv_fin (fmul w L) 2)
          then ''SAFE'' else ''STIRRUPS REQUIRED'')"
  using py_sqrt_f_nonneg [OF assms]
  by (simp add: shear_design_f64_def py_truediv_def Let_def)

theorem shear_design_f64_formulas_witness:
  "fge (Fin 25) (Fin 0)
   \<and> shear_design_f64 (Fin 30) (Fin 20) (Fin 300) (Fin 500) (Fin 25) =
       Inr (Fin 300, rnd 95.63, ''STIRRUPS REQUIRED'')
   \<and> fge (Fin 4) (Fin 0)
   \<and> shear_design_f64 (rnd 15.3) (Fin 2) (Fin 100) (Fin 600) (Fin 4) =
       Inr (rnd 15.3, rnd 15.3, ''STIRRUPS REQUIRED'')"
proof -
  have c: "rnd 0.17 = Fin (6124895493223875 / 2 ^ 55)"
    by (rule rnd_eq [where m = "6124895493223875" and e = "-55"]) simp_all
  have phi: "rnd 0.75 = Fin (3 / 2 ^ 2)"
    by (rule rnd_eq [where m = "6755399441055744" and e = "-53"]) simp_all
  have fc1: "fge (Fin 25) (Fin 0)"
    by simp
  have five: "sqrt 25 = 5"
    using real_sqrt_abs [of 5] by simp
  have s1: "froot (Fin 25) = Fin 5"
    by (simp only: froot.simps five)
      (rule rnd_eq [where m = "5629499534213120" and e = "-50"], simp_all)
  have t1: "fmul (Fin 30) (Fin 20) = Fin 600"
    by (simp only: fmul.simps) (rule rnd_eq [where m = "5277655813324800" and e = "-43"], simp_all)
  have Vu1: "fdiv_fin (Fin 600) 2 = Fin 300"
    by (simp only: fdiv_fin.simps) (rule rnd_eq [where m = "5277655813324800" and e = "-44"], simp_all)
  have x11: "fmul (Fin (6124895493223875 / 2 ^ 55)) (Fin 5) = Fin (1914029841632461 / 2 ^ 51)"
    by (simp only: fmul.simps) (rule rnd_eq [where m = "7656119366529844" and e = "-53"], simp_all)
  have x21: "fmul (Fin (1914029841632461 / 2 ^ 51)) (Fin 300) = Fin (8972014882652161 / 2 ^ 45)"
    by (simp only: fmul.simps) (rule rnd_eq [where m = "8972014882652161" and e = "-45"], simp_all)
  have x31: "fmul (Fin (8972014882652161 / 2 ^ 45)) (Fin 500) = Fin (8761733283840001 / 2 ^ 36)"
    by (simp only: fmul.simps) (rule rnd_eq [where m = "8761733283840001" and e = "-36"], simp_all)
  have Vc1: "fdiv_fin (Fin (8761733283840001 / 2 ^ 36)) 1000 = Fin (8972014882652161 / 2 ^ 46)"
    by (simp only: fdiv_fin.simps) (rule rnd_eq [where m = "8972014882652161" and e = "-46"], simp_all)
  have p1: "fmul (Fin (3 / 2 ^ 2)) (Fin (8972014882652161 / 2 ^ 46)) = Fin (6729011161989121 / 2 ^ 46)"
    by (simp only: fmul.simps) (rule rnd_eq [where m = "6729011161989121" and e = "-46"], simp_all)
  have rVu1: "py_round_f (Fin 300) 2 = Fin 300"
  proof -
    have "py_round 300 2 = of_int 30000 / 10 ^ 2"
      by (rule py_round_nearest) simp_all
    then have "py_round 300 2 = 300"
      by simp
    then show ?thesis
      by (simp only: py_round_f.simps)
        (rule rnd_eq [where m = "5277655813324800" and e = "-44"], simp_all)
  qed
  have rp1: "py_round_f (Fin (6729011161989121 / 2 ^ 46)) 2 = rnd 95.63"
  proof -
    have "py_round (6729011161989121 / 2 ^ 46) 2 = of_int 9563 / 10 ^ 2"
      by (rule py_round_nearest) simp_all
    then show ?thesis
      by (simp only: py_round_f.simps) simp
  qed
  have cmp1: "\<not> fge (Fin (6729011161989121 / 2 ^ 46)) (Fin 300)"
    by simp
  have first: "shear_design_f64 (Fin 30) (Fin 20) (Fin 300) (Fin 500) (Fin 25) =
      Inr (Fin 300, rnd 95.63, ''STIRRUPS REQUIRED'')"
    using shear_design_f64_formulas [OF fc1, of "Fin 30" "Fin 20" "Fin 300" "Fin 500"]
    unfolding s1 c phi t1 Vu1 x11 x21 x31 Vc1 p1 rVu1 rp1
    using cmp1 by simp
  have fc2: "fge (Fin 4) (Fin 0)"
    by simp
  have w2: "rnd 15.3 = Fin (4306567143673037 / 2 ^ 48)"
    by (rule rnd_eq [where m = "8613134287346074" and e = "-49"]) simp_all
  have s2: "froot (Fin 4) = Fin 2"
    by (simp only: froot.simps real_sqrt_four)
      (rule rnd_eq [where m = "4503599627370496" and e = "-51"], simp_all)
  have t2: "fmul (Fin (4306567143673037 / 2 ^ 48)) (Fin 2) = Fin (4306567143673037 / 2 ^ 47)"
    by (simp only: fmul.simps) (rule rnd_eq [where m = "8613134287346074" and e = "-48"], simp_all)
  have Vu2: "fdiv_fin (Fin (4306567143673037 / 2 ^ 47)) 2 = Fin (4306567143673037 / 2 ^ 48)"
    by (simp only: fdiv_fin.simps) (rule rnd_eq [where m = "8613134287346074" and e = "-49"], simp_all)
  have x12: "fmul (Fin (6124895493223875 / 2 ^ 55)) (Fin 2) = Fin (6124895493223875 / 2 ^ 54)"
    by (simp only: fmul.simps) (rule rnd_eq [where m = "6124895493223875" and e = "-54"], simp_all)
  have x22: "fmul (Fin (6124895493223875 / 2 ^ 54)) (Fin 100) = Fin 34"
    by (simp only: fmul.simps) (rule rnd_eq [where m = "4785074604081152" and e = "-47"], simp_all)
  have x32: "fmul (Fin 34) (Fin 600) = Fin 20400"
    by (simp only: fmul.simps) (rule rnd_eq [where m = "5607509301657600" and e = "-38"], simp_all)
  have Vc2: "fdiv_fin (Fin 20400) 1000 = Fin (2871044762448691 / 2 ^ 47)"
    by (simp only: fdiv_fin.simps) (rule rnd_eq [where m = "5742089524897382" and e = "-48"], simp_all)
  have p2: "fmul (Fin (3 / 2 ^ 2)) (Fin (2871044762448691 / 2 ^ 47)) = Fin (8613134287346073 / 2 ^ 49)"
    by (simp only: fmul.simps) (rule rnd_eq [where m = "8613134287346073" and e = "-49"], simp_all)
  have rVu2: "py_round_f (Fin (4306567143673037 / 2 ^ 48)) 2 = rnd 15.3"
  proof -
    have "py_round (4306567143673037 / 2 ^ 48) 2 = of_int 1530 / 10 ^ 2"
      by (rule py_round_nearest) simp_all
    then show ?thesis
      by (simp only: py_round_f.simps) simp
  qed
  have rp2: "py_round_f (Fin (8613134287346073 / 2 ^ 49)) 2 = rnd 15.3"
  proof -
    have "py_round (8613134287346073 / 2 ^ 49) 2 = of_int 1530 / 10 ^ 2"
      by (rule py_round_nearest) simp_all
    then show ?thesis
      by (simp only: py_round_f.simps) simp
  qed
  have cmp2: "\<not> fge (Fin (8613134287346073 / 2 ^ 49)) (Fin (4306567143673037 / 2 ^ 48))"
    by simp
  have second: "shear_design_f64 (Fin (4306567143673037 / 2 ^ 48)) (Fin 2) (Fin 100)
      (Fin 600) (Fin 4) = Inr (rnd 15.3, rnd 15.3, ''STIRRUPS REQUIRED'')"
    using shear_design_f64_formulas [OF fc2,
        of "Fin (4306567143673037 / 2 ^ 48)" "Fin 2" "Fin 100" "Fin 600"]
    unfolding s2 c phi t2 Vu2 x12 x22 x32 Vc2 p2 rVu2 rp2
    using cmp2 by simp
  show ?thesis
    using fc1 first fc2 second unfolding w2 by (intro conjI)
qed

text \<open>
  C3, as stated: for every recognized variant, every \<open>w\<close>, \<open>L\<close> and every \<open>d > 0\<close>,
  \<open>fy > 0\<close>, \<open>flexural_design\<close> returns \<open>Mu\<close> and \<open>As\<close>. On doubles it does not:
  for \<open>d = fy = 1e-200\<close>, which are positive, the divisor \<open>0.9 * fy * d * 0.9\<close>
  underflows to zero and ZeroDivisionError is raised; for \<open>L = 1e200\<close> the square
  overflows and OverflowError is raised.
\<close>

theorem flexural_design_f64_counterexample:
  "rnd (1 / 10 ^ 200) = Fin (1723641332219371 / 2 ^ 715)
   \<and> flexural_design_f64 pow2_rounded ''Simply Supported'' (Fin 30) (Fin 20) (Fin 300)
         (rnd (1 / 10 ^ 200)) (Fin 30) (rnd (1 / 10 ^ 200)) = Inl ZeroDivisionError
   \<and> rnd (10 ^ 200) = Fin (2941796710330669 * 2 ^ 613)
   \<and> flexural_design_f64 pow2_rounded ''Simply Supported'' (Fin 30) (rnd (10 ^ 200)) (Fin 300)
         (Fin 500) (Fin 30) (Fin 420) = Inl OverflowError"
proof -
  have a: "rnd (1 / 10 ^ 200) = Fin (1723641332219371 / 2 ^ 715)"
    by (rule rnd_eq [where m = "6894565328877484" and e = "-717"]) simp_all
  have "rnd (20 * 20) = Fin 400"
    by (rule rnd_eq [where m = "7036874417766400" and e = "-44"]) simp_all
  then have sq: "pow2_rounded (Fin 20) = Inr (Fin 400)"
    by (simp only: pow2_rounded.simps double.case)
  have Mu: "max_moment_f64 pow2_rounded ''Simply Supported'' (Fin 30) (Fin 20) =
      Inr (fdiv_fin (fmul (Fin 30) (Fin 400)) 8)"
    unfolding max_moment_f64_def sq moment_table_f64_def
    by (simp del: fmul.simps fdiv_fin.simps)
  have c9: "rnd 0.9 = Fin (8106479329266893 / 2 ^ 53)"
    by (rule rnd_eq [where m = "8106479329266893" and e = "-53"]) simp_all
  have u1: "fmul (Fin (8106479329266893 / 2 ^ 53)) (Fin (1723641332219371 / 2 ^ 715)) =
      Fin (775638599498717 / 2 ^ 714)"
    by (simp only: fmul.simps)
      (rule rnd_eq [where m = "6205108795989736" and e = "-717"], simp_all)
  have u2: "fmul (Fin (775638599498717 / 2 ^ 714)) (Fin (1723641332219371 / 2 ^ 715)) = Fin 0"
    by (simp only: fmul.simps) (rule rnd_underflow, simp)
  have u3: "fmul (Fin 0) (Fin (8106479329266893 / 2 ^ 53)) = Fin 0"
    by (simp add: rnd_def)
  have small: "flexural_design_f64 pow2_rounded ''Simply Supported'' (Fin 30) (Fin 20) (Fin 300)
      (Fin (1723641332219371 / 2 ^ 715)) (Fin 30) (Fin (1723641332219371 / 2 ^ 715)) =
      Inl ZeroDivisionError"
    unfolding flexural_design_f64_def Mu Let_def c9 u1 u2 u3
    by (simp add: py_truediv_def)
  have L: "rnd (10 ^ 200) = Fin (2941796710330669 * 2 ^ 613)"
    by (rule rnd_eq [where m = "5883593420661338" and e = "612"]) simp_all
  have "rnd (2941796710330669 * 2 ^ 613 * (2941796710330669 * 2 ^ 613)) = PInf"
    by (rule rnd_overflow) simp
  then have "pow2_rounded (Fin (2941796710330669 * 2 ^ 613)) = Inl OverflowError"
    by (simp only: pow2_rounded.simps double.case)
  then have big: "flexural_design_f64 pow2_rounded ''Simply Supported'' (Fin 30)
      (Fin (2941796710330669 * 2 ^ 613)) (Fin 300) (Fin 500) (Fin 30) (Fin 420) =
      Inl OverflowError"
    by (simp add: flexural_design_f64_def max_moment_f64_def)
  from a L small big show ?thesis
    by simp
qed

text \<open>
  C3, amended: for every beam type and every \<open>w\<close>, \<open>L\<close>, \<open>d\<close>, \<open>fy\<close> for which
  \<open>max_moment\<close> returns a value \<open>Mu\<close> (\<^verbatim>\<open>L**2\<close> does not overflow) and the divisor
  \<open>0.9 * fy * d * 0.9\<close>, computed on doubles, is not zero, \<open>flexural_design\<close> returns
  \<open>Mu\<close> and \<open>As = Mu * 10^6 / (0.9 * fy * d * 0.9)\<close>, each rounded to 2 decimals at the
  end only: \<open>As\<close> is computed from the unrounded \<open>Mu\<close>, with the factor 0.9.
\<close>

theorem flexural_design_f64_formulas:
  assumes "max_moment_f64 pw beam w L = Inr Mu"
    and "fmul (fmul (fmul (rnd 0.9) fy) d) (rnd 0.9) \<noteq> Fin 0"
  shows "flexural_design_f64 pw beam w L b d fc fy =
     Inr (py_round_f Mu 2,
          py_round_f (fquot (fmul Mu (Fin 1000000))
             (fmul (fmul (fmul (rnd 0.9) fy) d) (rnd 0.9))) 2)"
  using assms by (simp add: flexural_design_f64_def py_truediv_def Let_def)

theorem flexural_design_f64_formulas_witness:
  "max_moment_f64 pow2_rounded ''Overhang'' (Fin 1) (Fin (3 / 2)) =
     Inr (Fin (8106479329266893 / 2 ^ 55))
   \<and> fmul (fmul (fmul (rnd 0.9) (Fin 420)) (Fin 500)) (rnd 0.9) \<noteq> Fin 0
   \<and> flexural_design_f64 pow2_rounded ''Overhang'' (Fin 1) (Fin (3 / 2)) (Fin 300) (Fin 500)
         (Fin 30) (Fin 420) = Inr (rnd 0.23, rnd 1.32)"
proof -
  have "rnd (3 / 2 * (3 / 2)) = Fin (9 / 2 ^ 2)"
    by (rule rnd_eq [where m = "5066549580791808" and e = "-51"]) simp_all
  then have sq: "pow2_rounded (Fin (3 / 2)) = Inr (Fin (9 / 2 ^ 2))"
    by (simp only: pow2_rounded.simps double.case)
  have n: "fmul (Fin 1) (Fin (9 / 2 ^ 2)) = Fin (9 / 2 ^ 2)"
    by (simp only: fmul.simps)
      (rule rnd_eq [where m = "5066549580791808" and e = "-51"], simp_all)
  have q: "fdiv_fin (Fin (9 / 2 ^ 2)) 10 = Fin (8106479329266893 / 2 ^ 55)"
    by (simp only: fdiv_fin.simps)
      (rule rnd_eq [where m = "8106479329266893" and e = "-55"], simp_all)
  have "max_moment_f64 pow2_rounded ''Overhang'' (Fin 1) (Fin (3 / 2)) =
      Inr (fdiv_fin (fmul (Fin 1) (Fin (9 / 2 ^ 2))) 10)"
    unfolding max_moment_f64_def sq moment_table_f64_def
    by (simp del: fmul.simps fdiv_fin.simps)
  then have Mu: "max_moment_f64 pow2_rounded ''Overhang'' (Fin 1) (Fin (3 / 2)) =
      Inr (Fin (8106479329266893 / 2 ^ 55))"
    unfolding n q .
  have c9: "rnd 0.9 = Fin (8106479329266893 / 2 ^ 53)"
    by (rule rnd_eq [where m = "8106479329266893" and e = "-53"]) simp_all
  have t1: "fmul (Fin (8106479329266893 / 2 ^ 53)) (Fin 420) = Fin 378"
    by (simp only: fmul.simps)
      (rule rnd_eq [where m = "6649846324789248" and e = "-44"], simp_all)
  have t2: "fmul (Fin 378) (Fin 500) = Fin 189000"
    by (simp only: fmul.simps)
      (rule rnd_eq [where m = "6493990551552000" and e = "-35"], simp_all)
  have t3: "fmul (Fin 189000) (Fin (8106479329266893 / 2 ^ 53)) = Fin 170100"
    by (simp only: fmul.simps)
      (rule rnd_eq [where m = "5844591496396800" and e = "-35"], simp_all)
  have divisor: "fmul (fmul (fmul (rnd 0.9) (Fin 420)) (Fin 500)) (rnd 0.9) = Fin 170100"
    unfolding c9 t1 t2 t3 by (rule refl)
  then have nonzero: "fmul (fmul (fmul (rnd 0.9) (Fin 420)) (Fin 500)) (rnd 0.9) \<noteq> Fin 0"
    by simp
  have num: "fmul (Fin (8106479329266893 / 2 ^ 55)) (Fin 1000000) = Fin 225000"
    by (simp only: fmul.simps)
      (rule rnd_eq [where m = "7730941132800000" and e = "-35"], simp_all)
  have As: "fquot (Fin 225000) (Fin 170100) = Fin (186160698882709 / 2 ^ 47)"
    by (simp only: fquot.simps fdiv_fin.simps)
      (rule rnd_eq [where m = "5957142364246688" and e = "-52"], simp_all)
  have rMu: "py_round_f (Fin (8106479329266893 / 2 ^ 55)) 2 = rnd 0.23"
  proof -
    have "py_round (8106479329266893 / 2 ^ 55) 2 = of_int 23 / 10 ^ 2"
      by (rule py_round_nearest) simp_all
    then show ?thesis
      by (simp only: py_round_f.simps) simp
  qed
  have rAs: "py_round_f (Fin (186160698882709 / 2 ^ 47)) 2 = rnd 1.32"
  proof -
    have "py_round (186160698882709 / 2 ^ 47) 2 = of_int 132 / 10 ^ 2"
      by (rule py_round_nearest) simp_all
    then show ?thesis
      by (simp only: py_round_f.simps) simp
  qed
  have "flexural_design_f64 pow2_rounded ''Overhang'' (Fin 1) (Fin (3 / 2)) (Fin 300) (Fin 500)
      (Fin 30) (Fin 420) = Inr (rnd 0.23, rnd 1.32)"
    using flexural_design_f64_formulas [OF Mu nonzero, of "Fin 300" "Fin 30"]
    unfolding divisor num As rMu rAs .
  with Mu nonzero show ?thesis
    by (intro conjI)
qed

text \<open>
  C4, as stated: for Simply Supported, \<open>w = 30\<close>, \<open>L = 20\<close>, \<open>b = 300\<close>, \<open>d = 500\<close>,
  \<open>fc = 30\<close>, \<open>fy = 420\<close> the design is \<open>Mu = 1500.00\<close>, \<open>As = 8818.34\<close>,
  \<open>Vu = 300.00\<close>, \<open>phi * Vc = 104.77\<close> and the status STIRRUPS REQUIRED. The program
  does not return that: \<open>0.75 * 0.17 * sqrt 30 * 300 * 500 / 1000\<close> is 104.7519...
\<close>

theorem compute_design_example_counterexample:
  "compute_design ''Simply Supported'' 30 20 300 500 30 420
     \<noteq> Inr (1500, 8818.34, 300, 104.77, ''STIRRUPS REQUIRED'')"
  by (simp add: compute_design_def flexural_example shear_example)

text \<open>
  C4, amended: for these inputs the design is \<open>Mu = 1500.00\<close>, \<open>As = 8818.34\<close>,
  \<open>Vu = 300.00\<close>, \<open>phi * Vc = 104.75\<close> and the status STIRRUPS REQUIRED.
\<close>

theorem compute_design_example:
  "compute_design ''Simply Supported'' 30 20 300 500 30 420
     = Inr (1500, 8818.34, 300, 104.75, ''STIRRUPS REQUIRED'')"
  by (simp add: compute_design_def flexural_example shear_example)

section \<open>Envelope plotter\<close>

text \<open>
  C5: for every \<open>w\<close> and every \<open>L > 0\<close>, \<open>draw_diagrams\<close> evaluates the envelope at
  exactly 100 evenly spaced points of \<open>[0, L]\<close> (the first is 0, the last is \<open>L\<close>,
  neighbours are \<open>L / 99\<close> apart) with: Simply Supported \<open>V = w * (L/2 - x)\<close>,
  \<open>M = w * x * (L - x) / 2\<close>; Fixed End \<open>V = w * (L/2 - x)\<close>,
  \<open>M = w * x * (L - x) / 12\<close>; Cantilever \<open>V = w * (L - x)\<close>, \<open>M = w * (L - x)^2 / 2\<close>;
  Overhang \<open>V = w * (L/2 - x)\<close>, \<open>M = w * x * (L - x) / 10\<close>.
\<close>

theorem draw_diagrams_samples:
  assumes "0 < L"
  shows "draw_diagrams ''Simply Supported'' w L =
           Inr (envelope_figure L (\<lambda>x. w * (L / 2 - x)) (\<lambda>x. w * x * (L - x) / 2))
   \<and> draw_diagrams ''Fixed End'' w L =
           Inr (envelope_figure L (\<lambda>x. w * (L / 2 - x)) (\<lambda>x. w * x * (L - x) / 12))
   \<and> draw_diagrams ''Cantilever'' w L =
           Inr (envelope_figure L (\<lambda>x. w * (L - x)) (\<lambda>x. w * (L - x) ^ 2 / 2))
   \<and> draw_diagrams ''Overhang'' w L =
           Inr (envelope_figure L (\<lambda>x. w * (L / 2 - x)) (\<lambda>x. w * x * (L - x) / 10))
   \<and> length (sample_points L) = 100
   \<and> sample_points L ! 0 = 0
   \<and> sample_points L ! 99 = L
   \<and> (\<forall>i<99. sample_points L ! Suc i - sample_points L ! i = L / 99)
   \<and> (\<forall>x\<in>set (sample_points L). 0 \<le> x \<and> x \<le> L)"
proof -
  have "draw_diagrams ''Overhang'' w L =
           Inr (envelope_figure L (\<lambda>x. w * (L / 2 - x)) (\<lambda>x. w * x * (L - x) / 10))"
    by (rule draw_diagrams_else) simp_all
  moreover have "\<forall>x\<in>set (sample_points L). 0 \<le> x \<and> x \<le> L"
    using assms sample_points_range [of L] by simp
  moreover have "\<forall>i<99. sample_points L ! Suc i - sample_points L ! i = L / 99"
    using sample_points_spacing by blast
  moreover have "sample_points L ! 0 = 0" "sample_points L ! 99 = L"
    by (simp_all add: nth_sample_points)
  ultimately show ?thesis
    by (simp add: draw_diagrams_simply draw_diagrams_fixed draw_diagrams_cantilever
        length_sample_points)
qed

theorem draw_diagrams_samples_witness:
  "(0::real) < 20
   \<and> draw_diagrams ''Cantilever'' 30 20 =
        Inr (envelope_figure 20 (\<lambda>x. 30 * (20 - x)) (\<lambda>x. 30 * (20 - x) ^ 2 / 2))
   \<and> sample_points 20 ! 99 = 20"
proof -
  have L: "(0::real) < 20" by simp
  show ?thesis using draw_diagrams_samples [OF L, of 30] by simp
qed

text \<open>
  C10: for every \<open>w\<close>, \<open>L\<close> and every beam string that is not one of the four
  names, \<open>draw_diagrams\<close> still produces a plot, with the Overhang formulas
  \<open>V = w * (L/2 - x)\<close> and \<open>M = w * x * (L - x) / 10\<close> of the final else branch: the
  same figure as for Overhang, neither a zero envelope nor an error.
\<close>

theorem draw_diagrams_falls_through:
  assumes "\<not> recognized beam"
  shows "draw_diagrams beam w L =
           Inr (envelope_figure L (\<lambda>x. w * (L / 2 - x)) (\<lambda>x. w * x * (L - x) / 10))
   \<and> draw_diagrams beam w L = draw_diagrams ''Overhang'' w L"
proof -
  have "draw_diagrams ''Overhang'' w L =
           Inr (envelope_figure L (\<lambda>x. w * (L / 2 - x)) (\<lambda>x. w * x * (L - x) / 10))"
    by (rule draw_diagrams_else) simp_all
  with assms show ?thesis
    by (simp add: draw_diagrams_unrecognized)
qed

theorem draw_diagrams_falls_through_witness:
  "\<not> recognized ''Propped''
   \<and> draw_diagrams ''Propped'' 30 20 =
       Inr (envelope_figure 20 (\<lambda>x. 30 * (20 / 2 - x)) (\<lambda>x. 30 * x * (20 - x) / 10))
   \<and> draw_diagrams ''Propped'' 30 20 = draw_diagrams ''Overhang'' 30 20"
proof -
  note fall = draw_diagrams_falls_through [OF not_recognized_Propped, of 30 20]
  show ?thesis
    by (intro conjI not_recognized_Propped conjunct1 [OF fall] conjunct2 [OF fall])
qed

section \<open>Error handling\<close>

text \<open>
  C6, as stated: the core computation fails with a DomainError whenever \<open>fc < 0\<close>,
  \<open>d \<le> 0\<close> or \<open>fy \<le> 0\<close>. The program validates nothing: with \<open>d = -500\<close> and
  the other inputs at their defaults it raises no exception and returns a design.
\<close>

theorem compute_design_counterexample:
  "\<not> isl (compute_design ''Simply Supported'' 30 20 300 (- 500) 30 420)"
  using compute_design_raises [of "''Simply Supported''" 30 20 300 "- 500" 30 420]
  by (cases "compute_design ''Simply Supported'' 30 20 300 (- 500) 30 420") auto

text \<open>
  C6, amended: the core computation fails with an exception whenever \<open>fc < 0\<close>,
  \<open>d = 0\<close> or \<open>fy = 0\<close>, in particular for \<open>fc = -5\<close>, for \<open>d = 0\<close> and for \<open>fy = 0\<close>.
  The exceptions are Python's own, not a distinct DomainError: with the other inputs
  at the defaults of the user interface, the ValueError of \<^verbatim>\<open>math.sqrt\<close> for
  \<open>fc = -5\<close> and the ZeroDivisionError of the division for \<open>d = 0\<close> and for \<open>fy = 0\<close>.
  Negative \<open>d\<close> or \<open>fy\<close> are not rejected.
\<close>

theorem compute_design_errors:
  "(fc < 0 \<or> d = 0 \<or> fy = 0 \<longrightarrow> isl (compute_design beam w L b d fc fy))
   \<and> compute_design ''Simply Supported'' 30 20 300 500 (- 5) 420 = Inl ValueError
   \<and> compute_design ''Simply Supported'' 30 20 300 0 30 420 = Inl ZeroDivisionError
   \<and> compute_design ''Simply Supported'' 30 20 300 500 30 0 = Inl ZeroDivisionError"
proof -
  have "isl (compute_design beam w L b d fc fy)" if "fc < 0 \<or> d = 0 \<or> fy = 0"
    using that
    by (auto simp: compute_design_def flexural_design_def shear_design_def py_div_def
        py_sqrt_def Let_def)
  then show ?thesis
    by (simp add: compute_design_raises)
qed

theorem compute_design_errors_witness:
  "(- 5 :: real) < 0 \<and> isl (compute_design ''Fixed End'' 10 5 250 450 (- 5) 415)"
proof -
  have fc: "(- 5 :: real) < 0 \<or> (450 :: real) = 0 \<or> (415 :: real) = 0"
    by simp
  note raises = conjunct1 [OF compute_design_errors
      [of "- 5" 450 415 "''Fixed End''" 10 5 250]]
  have "isl (compute_design ''Fixed End'' 10 5 250 450 (- 5) 415)"
    using raises fc by (rule mp)
  then show ?thesis
    by simp
qed

text \<open>
  C7, as stated: for every span \<open>L \<le> 0\<close>, in particular \<open>L = 0\<close>, \<open>draw_diagrams\<close>
  fails with a DegenerateSpan error. The program has no such check: for \<open>L = 0\<close> it
  returns a figure.
\<close>

theorem draw_diagrams_zero_span_counterexample:
  "\<not> isl (draw_diagrams ''Simply Supported'' 30 0)"
  by (simp add: draw_diagrams_def Let_def)

text \<open>
  C7, amended: for every span \<open>L \<le> 0\<close>, \<open>draw_diagrams\<close> raises nothing and returns
  a figure over the 100 sample points \<open>i * L / 99\<close>, which lie between \<open>L\<close> and 0 (all
  of them are 0 when \<open>L = 0\<close>).
\<close>

theorem draw_diagrams_nonpositive_span:
  assumes "L \<le> 0"
  shows "(\<exists>fig. draw_diagrams beam w L = Inr fig \<and> xdata (ax1 fig) = sample_points L
            \<and> xdata (ax2 fig) = sample_points L)
         \<and> length (sample_points L) = 100
         \<and> (\<forall>x\<in>set (sample_points L). L \<le> x \<and> x \<le> 0)"
proof -
  have "\<forall>x\<in>set (sample_points L). L \<le> x \<and> x \<le> 0"
    using assms sample_points_range_neg by blast
  then show ?thesis
    by (intro conjI draw_diagrams_xdata length_sample_points)
qed

theorem draw_diagrams_nonpositive_span_witness:
  "(0::real) \<le> 0
   \<and> (\<exists>fig. draw_diagrams ''Simply Supported'' 30 0 = Inr fig
         \<and> xdata (ax1 fig) = sample_points 0 \<and> xdata (ax2 fig) = sample_points 0)
   \<and> length (sample_points 0) = 100"
proof -
  have L: "(0::real) \<le> 0" by simp
  note span = draw_diagrams_nonpositive_span [OF L, of "''Simply Supported''" 30]
  show ?thesis
    by (intro conjI L conjunct1 [OF span] conjunct1 [OF conjunct2 [OF span]])
qed

text \<open>
  C8, as stated: for a beam string outside the four names, \<open>max_moment\<close> returns 0
  and the plotted envelope is zero-valued. For the string Propped with \<open>w = 30\<close> and
  \<open>L = 20\<close> the plotted figure is not the zero envelope: the first shear value is 300
  and the moment at the sample point \<open>x = 20/3\<close> is \<open>800/3\<close>.
\<close>

theorem unknown_variant_counterexample:
  "\<not> recognized ''Propped''
   \<and> draw_diagrams ''Propped'' 30 20 \<noteq> Inr (envelope_figure 20 (\<lambda>x. 0) (\<lambda>x. 0))
   \<and> ydata (ax1 (projr (draw_diagrams ''Propped'' 30 20))) ! 0 = 300
   \<and> ydata (ax2 (projr (draw_diagrams ''Propped'' 30 20))) ! 33 = 800 / 3"
proof -
  have fig: "draw_diagrams ''Propped'' 30 20 =
     Inr (envelope_figure 20 (\<lambda>x. 30 * (20 / 2 - x)) (\<lambda>x. 30 * x * (20 - x) / 10))"
    using not_recognized_Propped by (rule draw_diagrams_unrecognized)
  have V: "ydata (ax1 (envelope_figure 20 (\<lambda>x. 30 * (20 / 2 - x)) (\<lambda>x. 30 * x * (20 - x) / 10))) ! 0 = 300"
    by (simp add: envelope_figure_def length_sample_points nth_sample_points)
  have M: "ydata (ax2 (envelope_figure 20 (\<lambda>x. 30 * (20 / 2 - x)) (\<lambda>x. 30 * x * (20 - x) / 10))) ! 33 = 800 / 3"
    by (simp add: envelope_figure_def length_sample_points nth_sample_points)
  have Z: "ydata (ax1 (envelope_figure 20 (\<lambda>x. 0) (\<lambda>x. 0))) ! 0 = 0"
    by (simp add: envelope_figure_def length_sample_points)
  have "envelope_figure 20 (\<lambda>x. 30 * (20 / 2 - x)) (\<lambda>x. 30 * x * (20 - x) / 10)
          \<noteq> envelope_figure 20 (\<lambda>x. 0) (\<lambda>x. 0)"
    using V Z by auto
  then show ?thesis
    using fig V M not_recognized_Propped by simp
qed

text \<open>
  C8, amended: for every beam string outside the four names, every \<open>w\<close> and every
  \<open>L\<close> with \<open>L^2 \<le> 10^308\<close>, nothing raises: \<open>max_moment\<close> returns 0, and the envelope
  used for plotting is the Overhang one, \<open>V = w * (L/2 - x)\<close> and
  \<open>M = w * x * (L - x) / 10\<close> at the 100 sample points \<open>i * L / 99\<close>. (The bound keeps
  \<^verbatim>\<open>L**2\<close> inside the range of a double; beyond it Python raises OverflowError while
  it builds the dictionary, for every beam string: see \<open>max_moment_f64_unrecognized\<close>.)
\<close>

theorem unknown_variant_degrades:
  assumes "\<not> recognized beam" and "L ^ 2 \<le> 10 ^ 308"
  shows "max_moment beam w L = 0
   \<and> draw_diagrams beam w L =
       Inr (envelope_figure L (\<lambda>x. w * (L / 2 - x)) (\<lambda>x. w * x * (L - x) / 10))"
  using assms(1) by (simp add: max_moment_unrecognized draw_diagrams_unrecognized)

theorem unknown_variant_degrades_witness:
  "\<not> recognized ''Propped'' \<and> (20 :: real) ^ 2 \<le> 10 ^ 308
   \<and> max_moment ''Propped'' 30 20 = 0
   \<and> draw_diagrams ''Propped'' 30 20 =
       Inr (envelope_figure 20 (\<lambda>x. 30 * (20 / 2 - x)) (\<lambda>x. 30 * x * (20 - x) / 10))"
proof -
  have span: "(20 :: real) ^ 2 \<le> 10 ^ 308"
    by simp
  note degrades = unknown_variant_degrades [OF not_recognized_Propped span, of 30]
  show ?thesis
    by (intro conjI not_recognized_Propped span conjunct1 [OF degrades]
        conjunct2 [OF degrades])
qed

section \<open>Shear adequacy and the section dimensions\<close>

text \<open>
  C9: shear adequacy is monotone in the section dimensions, which are positive: for
  every \<open>w\<close>, \<open>L\<close> and every \<open>fc > 0\<close>, if \<open>shear_design\<close> returns SAFE for \<open>(b, d)\<close>
  then it returns SAFE for every \<open>b' \<ge> b\<close> and \<open>d' \<ge> d\<close>, the other inputs being
  equal; and for any \<open>w\<close>, \<open>L\<close> and \<open>fc > 0\<close> there are \<open>b0\<close>, \<open>d0\<close> such that every
  section with \<open>b \<ge> b0\<close> and \<open>d \<ge> d0\<close> is SAFE.
\<close>

theorem shear_safe_monotone:
  assumes "0 < fc"
  shows "(0 < b \<and> 0 < d \<and> b \<le> b' \<and> d \<le> d'
            \<and> shear_design w L b d fc = Inr (Vu, Vc, ''SAFE'')
          \<longrightarrow> (\<exists>Vc'. shear_design w L b' d' fc = Inr (Vu, Vc', ''SAFE'')))
       \<and> (\<exists>b0 d0. 0 < b0 \<and> 0 < d0
            \<and> (\<forall>b d. b0 \<le> b \<longrightarrow> d0 \<le> d
                  \<longrightarrow> (\<exists>Vu Vc. shear_design w L b d fc = Inr (Vu, Vc, ''SAFE''))))"
proof (intro conjI impI)
  assume a: "0 < b \<and> 0 < d \<and> b \<le> b' \<and> d \<le> d'
    \<and> shear_design w L b d fc = Inr (Vu, Vc, ''SAFE'')"
  then have safe: "w * L / 2 \<le> 0.75 * (0.17 * sqrt fc * b * d / 1000)"
    and Vu: "Vu = py_round (w * L / 2) 2"
    by (auto simp: shear_design_status split: if_splits)
  have "0.75 * (0.17 * sqrt fc * b * d / 1000) \<le> 0.75 * (0.17 * sqrt fc * b' * d' / 1000)"
    using a assms by (intro capacity_mono) auto
  with safe have "w * L / 2 \<le> 0.75 * (0.17 * sqrt fc * b' * d' / 1000)"
    by (rule order_trans)
  with assms Vu show "\<exists>Vc'. shear_design w L b' d' fc = Inr (Vu, Vc', ''SAFE'')"
    by (simp add: shear_design_status)
next
  from capacity_reaches [OF assms, of w L] obtain d0 where d0: "0 < d0"
    and reach: "\<And>b d. 1 \<le> b \<Longrightarrow> d0 \<le> d \<Longrightarrow>
        w * L / 2 \<le> 0.75 * (0.17 * sqrt fc * b * d / 1000)"
    by blast
  have "\<exists>Vu Vc. shear_design w L b d fc = Inr (Vu, Vc, ''SAFE'')"
    if "1 \<le> b" "d0 \<le> d" for b d
    using reach [OF that] assms by (simp add: shear_design_safe_iff)
  with d0 show "\<exists>b0 d0. 0 < b0 \<and> 0 < d0
      \<and> (\<forall>b d. b0 \<le> b \<longrightarrow> d0 \<le> d
            \<longrightarrow> (\<exists>Vu Vc. shear_design w L b d fc = Inr (Vu, Vc, ''SAFE'')))"
    by (intro exI [of _ 1] exI [of _ d0]) simp
qed

theorem shear_safe_monotone_witness:
  "(0::real) < 4
   \<and> shear_design 1 1 100 100 4 = Inr (0.5, 2.55, ''SAFE'')
   \<and> (\<exists>Vc'. shear_design 1 1 200 100 4 = Inr (0.5, Vc', ''SAFE''))"
proof -
  have fc: "(0::real) < 4"
    by simp
  have Vu: "py_round (1 / 2) 2 = of_int 50 / 10 ^ 2"
    by (rule py_round_nearest) simp_all
  have Vc: "py_round (255 / 100) 2 = of_int 255 / 10 ^ 2"
    by (rule py_round_nearest) simp_all
  have safe: "shear_design 1 1 100 100 4 = Inr (0.5, 2.55, ''SAFE'')"
    using Vu Vc by (simp add: shear_design_def py_sqrt_def Let_def)
  have dims: "(0::real) < 100 \<and> (0::real) < 100 \<and> (100::real) \<le> 200 \<and> (100::real) \<le> 100"
    by simp
  note mono = conjunct1 [OF shear_safe_monotone [OF fc, of 100 100 200 100 1 1 "0.5" "2.55"]]
  have "\<exists>Vc'. shear_design 1 1 200 100 4 = Inr (0.5, Vc', ''SAFE'')"
    using mono dims safe by (elim impE) (intro conjI, simp_all)
  with fc safe show ?thesis
    by (intro conjI)
qed

end
